theory Spec2Isabelle
  imports Main
begin

section \<open>mod\_csrfprotector (Apache 2.2): a shallow embedding of mod\_csrfprotector.c\<close>

text \<open>
  The module is one C file.  Its functions are embedded below under their own
  names.  C strings are \<^typ>\<open>string\<close> values that hold no NUL byte; a \<open>char *\<close> that
  may be \<open>NULL\<close> is a \<^typ>\<open>string option\<close>; a pointer to bytes that no terminator
  ends is the list of the bytes in memory from it on.  Wherever the C code dereferences
  \<open>NULL\<close>, reads an uninitialised pointer, indexes past an array or asks for a
  negative amount of memory, the embedding returns a \<open>fault\<close> on the left of a sum,
  so that each such path of the source is a branch of the model.
\<close>

subsection \<open>Constants of the module\<close>

definition CSRFP_TOKEN :: string where
  "CSRFP_TOKEN = ''csrfp_token''"

definition DEFAULT_POST_ENCTYPE :: string where
  "DEFAULT_POST_ENCTYPE = ''application/x-www-form-urlencoded''"

definition REGEN_TOKEN :: string where
  "REGEN_TOKEN = ''true''"

definition CSRFP_URI_MAXLENGTH :: nat where
  "CSRFP_URI_MAXLENGTH = 200"

definition CSRFP_ERROR_MESSAGE_MAXLENGTH :: nat where
  "CSRFP_ERROR_MESSAGE_MAXLENGTH = 200"

definition CSRFP_DISABLED_JS_MESSAGE_MAXLENGTH :: nat where
  "CSRFP_DISABLED_JS_MESSAGE_MAXLENGTH = 400"

definition DEFAULT_ACTION :: int where
  "DEFAULT_ACTION = 0"

definition DEFAULT_TOKEN_LENGTH :: int where
  "DEFAULT_TOKEN_LENGTH = 15"

definition DEFAULT_ERROR_MESSAGE :: string where
  "DEFAULT_ERROR_MESSAGE = ''<h2>ACCESS FORBIDDEN BY OWASP CSRF_PROTECTOR!</h2>''"

definition DEFAULT_REDIRECT_URL :: string where
  "DEFAULT_REDIRECT_URL = ''''"

definition DEFAULT_JS_FILE_PATH :: string where
  "DEFAULT_JS_FILE_PATH = ''http://localhost/csrfp_js/csrfprotector.js''"

definition DEFAULT_DISABLED_JS_MESSSAGE :: string where
  "DEFAULT_DISABLED_JS_MESSSAGE =
     ''This site attempts to protect users against''
     @ '' <a href=\"https://www.owasp.org/index.php/Cross-Site_Request_Forgery_%28CSRF%29\">''
     @ '' Cross-Site Request Forgeries </a> attacks. In order to do so, you must have JavaScript ''
     @ '' enabled in your web browser otherwise this site will fail to work correctly for you. ''
     @ '' See details of your web browser for how to enable JavaScript.''"

definition CSRFP_ACTION_FORBIDDEN :: int where
  "CSRFP_ACTION_FORBIDDEN = 0"

definition CSRFP_ACTION_STRIP :: int where
  "CSRFP_ACTION_STRIP = 1"

definition CSRFP_ACTION_REDIRECT :: int where
  "CSRFP_ACTION_REDIRECT = 2"

definition CSRFP_ACTION_MESSAGE :: int where
  "CSRFP_ACTION_MESSAGE = 3"

definition CSRFP_ACTION_INTERNAL_SERVER_ERROR :: int where
  "CSRFP_ACTION_INTERNAL_SERVER_ERROR = 4"

text \<open>Status codes of httpd.h that the module returns.\<close>

definition OK :: int where
  "OK = 0"

definition DONE :: int where
  "DONE = - 2"

definition HTTP_FORBIDDEN :: int where
  "HTTP_FORBIDDEN = 403"

definition HTTP_INTERNAL_SERVER_ERROR :: int where
  "HTTP_INTERNAL_SERVER_ERROR = 500"

subsection \<open>Faults\<close>

datatype fault =
    NullDeref        \<comment> \<open>a \<open>NULL\<close> pointer handed to \<open>strlen\<close>, \<open>strcmp\<close>, \<open>strcasecmp\<close> or \<open>apr_table_get\<close>\<close>
  | UninitRead       \<comment> \<open>a read through a pointer that was never assigned\<close>
  | OutOfBounds      \<comment> \<open>an index past the end of an array, or a read past the memory there is\<close>
  | BadAlloc         \<comment> \<open>\<open>apr_pcalloc\<close> asked for a negative number of bytes\<close>

subsection \<open>C library and APR functions the module calls\<close>

definition NUL :: char where
  "NUL = CHR 0x00"

text \<open>The C string that starts at a byte buffer: everything before the first NUL.\<close>

definition cstr :: "string \<Rightarrow> string" where
  "cstr bs = takeWhile (\<lambda>c. c \<noteq> NUL) bs"

definition c_tolower :: "char \<Rightarrow> char" where
  "c_tolower c =
     (case map_of (zip ''ABCDEFGHIJKLMNOPQRSTUVWXYZ'' ''abcdefghijklmnopqrstuvwxyz'') c of
        None \<Rightarrow> c
      | Some l \<Rightarrow> l)"

text \<open>\<open>strcasecmp(a, b) == 0\<close>.\<close>

definition strcasecmp_eq :: "string \<Rightarrow> string \<Rightarrow> bool" where
  "strcasecmp_eq a b = (map c_tolower a = map c_tolower b)"

text \<open>\<open>strstr(hay, needle)\<close>: the suffix of \<open>hay\<close> at the first occurrence, or \<open>NULL\<close>.\<close>

fun strstr :: "string \<Rightarrow> string \<Rightarrow> string option" where
  "strstr [] needle = (if needle = [] then Some [] else None)"
| "strstr (c # cs) needle =
     (if take (length needle) (c # cs) = needle then Some (c # cs) else strstr cs needle)"

text \<open>
  An \<open>apr_table_t\<close> is an ordered list of entries; keys compare without case.
  \<open>apr_table_get\<close> returns the first entry of the key, \<open>apr_table_addn\<close> and
  \<open>apr_table_add\<close> append, \<open>apr_table_setn\<close> overwrites the first entry of the key
  and drops the later ones.
\<close>

type_synonym apr_table_t = "(string \<times> string) list"

fun apr_table_get :: "apr_table_t \<Rightarrow> string \<Rightarrow> string option" where
  "apr_table_get [] key = None"
| "apr_table_get ((k, v) # t) key = (if strcasecmp_eq k key then Some v else apr_table_get t key)"

definition apr_table_addn :: "apr_table_t \<Rightarrow> string \<Rightarrow> string \<Rightarrow> apr_table_t" where
  "apr_table_addn t key val = t @ [(key, val)]"

fun apr_table_setn :: "apr_table_t \<Rightarrow> string \<Rightarrow> string \<Rightarrow> apr_table_t" where
  "apr_table_setn [] key val = [(key, val)]"
| "apr_table_setn ((k, v) # t) key val =
     (if strcasecmp_eq k key
      then (k, val) # filter (\<lambda>e. \<not> strcasecmp_eq (fst e) key) t
      else (k, v) # apr_table_setn t key val)"

text \<open>
  \<open>ap_getword(pool, &line, stop)\<close> returns the text before the first \<open>stop\<close> and
  moves \<open>line\<close> past it and past every \<open>stop\<close> that follows directly.
\<close>

definition ap_getword :: "string \<Rightarrow> char \<Rightarrow> string \<times> string" where
  "ap_getword line stop =
     (takeWhile (\<lambda>c. c \<noteq> stop) line,
      dropWhile (\<lambda>c. c = stop) (dropWhile (\<lambda>c. c \<noteq> stop) line))"

text \<open>
  \<open>ap_unescape_url\<close> decodes \<open>%XX\<close> in place; a \<open>%\<close> that two hexadecimal digits do
  not follow stays as it is, and a decoded \<open>%00\<close> ends the C string.
\<close>

definition hexval :: "char \<Rightarrow> nat option" where
  "hexval c =
     map_of (zip ''0123456789abcdefABCDEF''
               [0, 1, 2, 3, 4, 5, 6, 7, 8, 9, 10, 11, 12, 13, 14, 15, 10, 11, 12, 13, 14, 15]) c"

text \<open>
  \<open>atoi(s)\<close> is \<open>(int) strtol(s, NULL, 10)\<close>: white space, an optional sign, then
  decimal digits up to the first character that is none.  It has no error
  result.  With a \<open>long\<close> of 64 bits \<open>strtol\<close> stops at the ends of that range,
  and the conversion to \<open>int\<close> keeps the low 32 bits, so a number past the range
  of \<open>int\<close> comes back wrapped around.
\<close>

definition c_isspace :: "char \<Rightarrow> bool" where
  "c_isspace c = (c \<in> set [CHR '' '', CHR 0x09, CHR 0x0A, CHR 0x0B, CHR 0x0C, CHR 0x0D])"

definition digit_val :: "char \<Rightarrow> int option" where
  "digit_val c = map_of (zip ''0123456789'' [0, 1, 2, 3, 4, 5, 6, 7, 8, 9]) c"

fun atoi_digits :: "int \<Rightarrow> string \<Rightarrow> int" where
  "atoi_digits acc [] = acc"
| "atoi_digits acc (c # cs) =
     (case digit_val c of None \<Rightarrow> acc | Some d \<Rightarrow> atoi_digits (10 * acc + d) cs)"

definition strtol10 :: "string \<Rightarrow> int" where
  "strtol10 s =
     (let t = dropWhile c_isspace s;
          v = (case t of
                 [] \<Rightarrow> 0
               | c # cs \<Rightarrow>
                   if c = CHR ''-'' then - atoi_digits 0 cs
                   else if c = CHR ''+'' then atoi_digits 0 cs
                   else atoi_digits 0 t)
      in max (- 9223372036854775808) (min 9223372036854775807 v))"

definition int_of_long :: "int \<Rightarrow> int" where
  "int_of_long v = (v + 2147483648) mod 4294967296 - 2147483648"

definition atoi :: "string \<Rightarrow> int" where
  "atoi s = int_of_long (strtol10 s)"

text \<open>
  \<open>strcmp(a, b) == 0\<close> where \<open>a\<close> is a C string and \<open>b\<close> points at bytes that no
  terminator is known to end: \<open>mem\<close> is the memory from \<open>b\<close> on, as far as it can
  be read.  The comparison stops at the first byte that differs; it reads on in
  \<open>mem\<close> for as long as the bytes agree and \<open>a\<close> has not ended.
\<close>

fun strcmp_eq :: "string \<Rightarrow> string \<Rightarrow> fault + bool" where
  "strcmp_eq [] [] = Inl OutOfBounds"
| "strcmp_eq [] (y # mem) = Inr (y = NUL)"
| "strcmp_eq (x # a) [] = Inl OutOfBounds"
| "strcmp_eq (x # a) (y # mem) =
     (if x = y then (if x = NUL then Inr True else strcmp_eq a mem) else Inr False)"

fun unescape :: "string \<Rightarrow> string" where
  "unescape (c # h1 # h2 # rest) =
     (if c = CHR ''%''
      then (case (hexval h1, hexval h2) of
              (Some a, Some b) \<Rightarrow> char_of (16 * a + b) # unescape rest
            | _ \<Rightarrow> CHR ''%'' # unescape (h1 # h2 # rest))
      else c # unescape (h1 # h2 # rest))"
| "unescape (c # cs) = c # unescape cs"
| "unescape [] = []"

definition ap_unescape_url :: "string \<Rightarrow> string" where
  "ap_unescape_url url = cstr (unescape url)"

subsection \<open>Data structures\<close>

text \<open>A compiled \<open>ap_regex_t\<close>, kept as the pattern it was compiled from.\<close>

datatype ap_regex_t = Regex string

record csrfp_config =
  flag :: int
  action :: int
  errorRedirectionUri :: "string option"
  errorCustomMessage :: "string option"
  jsFilePath :: string
  tokenLength :: int
  disablesJsMessage :: string
  verifyGetFor :: "ap_regex_t option"

text \<open>
  The fields of Apache's \<open>request_rec\<close> that the module reads or writes;
  \<open>method_name\<close> is the field \<open>method\<close>, and \<open>method_number\<close> is \<open>M_POST\<close> exactly
  when that is \<open>POST\<close>.
  \<open>client_block_rc\<close> is what \<open>ap_setup_client_block\<close> answers for the request,
  \<open>body\<close> the bytes \<open>ap_get_client_block\<close> delivers, \<open>output_filters\<close> the names of
  the filters added to the request, and \<open>rprintf_out\<close> the text written with
  \<open>ap_rprintf\<close>.  \<open>pool_rest\<close> is the content of the request pool behind the
  buffer that \<open>getCookieToken\<close> allocates, as far as memory can be read there; a
  pool hands out memory again without clearing it, so these bytes are whatever
  was left there.
\<close>

record request_rec =
  method_name :: string
  args :: "string option"
  headers_in :: apr_table_t
  headers_out :: apr_table_t
  err_headers_out :: apr_table_t
  content_type :: "string option"
  subprocess_env :: apr_table_t
  client_block_rc :: int
  body :: string
  output_filters :: "string list"
  rprintf_out :: string
  pool_rest :: string

subsection \<open>Token generation\<close>

definition stringset :: string where
  "stringset = ''ABCDEFGHIJKLMNOPQRSTWXYZabcdefghijklmnopqrstuvwxyz0123456789''"

text \<open>
  \<open>stringset[i]\<close>: the literal's characters, then its terminating NUL, and nothing
  beyond that.
\<close>

definition stringset_at :: "int \<Rightarrow> fault + char" where
  "stringset_at i =
     (if 0 \<le> i \<and> i < int (length stringset) then Inr (stringset ! nat i)
      else if i = int (length stringset) then Inr NUL
      else Inl OutOfBounds)"

text \<open>The body of the \<open>for\<close> loop, for the value \<open>rv\<close> that \<open>rand()\<close> returned.\<close>

definition token_char :: "int \<Rightarrow> fault + char" where
  "token_char rv =
     (let rno = rv mod 123 + 1
      in if rno < 62 then stringset_at rno else stringset_at (rno - 62))"

text \<open>
  The loop \<open>for (i = 0; i < length; i++)\<close>, with \<open>n\<close> rounds left; \<open>rnd k\<close> is the
  value of the \<open>k\<close>-th call of \<open>rand()\<close>, which is never negative.
\<close>

fun fill_token :: "(nat \<Rightarrow> int) \<Rightarrow> nat \<Rightarrow> nat \<Rightarrow> fault + string" where
  "fill_token rnd i 0 = Inr []"
| "fill_token rnd i (Suc n) =
     (case token_char (rnd i) of
        Inl f \<Rightarrow> Inl f
      | Inr c \<Rightarrow> (case fill_token rnd (Suc i) n of Inl f \<Rightarrow> Inl f | Inr cs \<Rightarrow> Inr (c # cs)))"

text \<open>The result is the \<open>length\<close> bytes written to the buffer \<open>token\<close>.\<close>

definition generateToken :: "(nat \<Rightarrow> int) \<Rightarrow> int \<Rightarrow> fault + string" where
  "generateToken rnd len =
     (if len < 0 then Inl BadAlloc else fill_token rnd 0 (nat len))"

subsection \<open>Reading the request\<close>

text \<open>
  \<open>util_read\<close>: the status of \<open>ap_setup_client_block\<close> and the buffer \<open>*rbuf\<close>.
  \<open>ap_should_client_block\<close> holds when the request has body bytes left to read;
  otherwise \<open>*rbuf\<close> is never assigned (\<open>None\<close>).  The buffer has one zero byte
  more than the body, so its readers see the body up to its first NUL.
\<close>

definition util_read :: "request_rec \<Rightarrow> int \<times> string option" where
  "util_read r =
     (if client_block_rc r \<noteq> OK then (client_block_rc r, None)
      else if body r \<noteq> [] then (client_block_rc r, Some (cstr (body r)))
      else (client_block_rc r, None))"

text \<open>
  The loop of \<open>read_post\<close>:
  \<open>while (*data && (val = ap_getword(r->pool, &data, '&')))\<close>.
\<close>

function post_loop :: "string \<Rightarrow> apr_table_t \<Rightarrow> apr_table_t" where
  "post_loop data tbl =
     (if data = [] then tbl
      else post_loop (snd (ap_getword data CHR ''&''))
             (let val = fst (ap_getword data CHR ''&'');
                  key = fst (ap_getword val CHR ''='');
                  val = snd (ap_getword val CHR ''='')
              in apr_table_setn tbl (ap_unescape_url key) (ap_unescape_url val)))"
  by pat_completeness auto
termination
proof (relation "measure (\<lambda>(data, tbl). length data)")
  show "wf (measure (\<lambda>(data, tbl). length data))"
    by simp
next
  fix data :: string and tbl :: apr_table_t
  assume "data \<noteq> []"
  then obtain c cs where data: "data = c # cs"
    by (cases data) auto
  have "length (dropWhile (\<lambda>x. x = CHR ''&'') (dropWhile (\<lambda>x. x \<noteq> CHR ''&'') cs))
          \<le> length (dropWhile (\<lambda>x. x \<noteq> CHR ''&'') cs)"
    by (rule length_dropWhile_le)
  also have "\<dots> \<le> length cs"
    by (rule length_dropWhile_le)
  finally have far: "length (dropWhile (\<lambda>x. x = CHR ''&'') (dropWhile (\<lambda>x. x \<noteq> CHR ''&'') cs))
          \<le> length cs" .
  have near: "length (dropWhile (\<lambda>x. x = CHR ''&'') cs) \<le> length cs"
    by (rule length_dropWhile_le)
  have "length (snd (ap_getword data CHR ''&'')) < length data"
    using far near by (simp add: data ap_getword_def)
  then show "((snd (ap_getword data CHR ''&''),
               let val = fst (ap_getword data CHR ''&'');
                   key = fst (ap_getword val CHR ''='');
                   val = snd (ap_getword val CHR ''='')
               in apr_table_setn tbl (ap_unescape_url key) (ap_unescape_url val)),
              data, tbl) \<in> measure (\<lambda>(data, tbl). length data)"
    by simp
qed

declare post_loop.simps [simp del]

text \<open>
  \<open>read_post\<close>: \<open>Inr None\<close> is the \<open>NULL\<close> table.  \<open>strcasecmp\<close> gets \<open>NULL\<close> when
  the request has no Content-Type header, and \<open>*data\<close> reads an unassigned pointer
  when \<open>util_read\<close> succeeded without assigning the buffer.
\<close>

definition method_is_post :: "request_rec \<Rightarrow> bool" where
  "method_is_post r = (method_name r = ''POST'')"

definition read_post :: "request_rec \<Rightarrow> fault + apr_table_t option" where
  "read_post r =
     (if \<not> method_is_post r then Inr None
      else (case apr_table_get (headers_in r) ''Content-Type'' of
              None \<Rightarrow> Inl NullDeref
            | Some type \<Rightarrow>
                if \<not> strcasecmp_eq type DEFAULT_POST_ENCTYPE then Inr None
                else (case util_read r of
                        (rc, data) \<Rightarrow>
                          if rc \<noteq> OK then Inr None
                          else (case data of
                                  None \<Rightarrow> Inl UninitRead
                                | Some d \<Rightarrow> Inr (Some (post_loop d []))))))"

text \<open>The loop of \<open>csrf_get_query\<close>: \<open>while (args[0])\<close>; the words are not unescaped.\<close>

function query_loop :: "string \<Rightarrow> apr_table_t \<Rightarrow> apr_table_t" where
  "query_loop as tbl =
     (if as = [] then tbl
      else query_loop (snd (ap_getword as CHR ''&''))
             (let value = fst (ap_getword as CHR ''&'');
                  name = fst (ap_getword value CHR ''='');
                  value = snd (ap_getword value CHR ''='')
              in apr_table_addn tbl name value))"
  by pat_completeness auto
termination
proof (relation "measure (\<lambda>(as, tbl). length as)")
  show "wf (measure (\<lambda>(as, tbl). length as))"
    by simp
next
  fix as :: string and tbl :: apr_table_t
  assume "as \<noteq> []"
  then obtain c cs where as: "as = c # cs"
    by (cases as) auto
  have "length (dropWhile (\<lambda>x. x = CHR ''&'') (dropWhile (\<lambda>x. x \<noteq> CHR ''&'') cs))
          \<le> length (dropWhile (\<lambda>x. x \<noteq> CHR ''&'') cs)"
    by (rule length_dropWhile_le)
  also have "\<dots> \<le> length cs"
    by (rule length_dropWhile_le)
  finally have far: "length (dropWhile (\<lambda>x. x = CHR ''&'') (dropWhile (\<lambda>x. x \<noteq> CHR ''&'') cs))
          \<le> length cs" .
  have near: "length (dropWhile (\<lambda>x. x = CHR ''&'') cs) \<le> length cs"
    by (rule length_dropWhile_le)
  have "length (snd (ap_getword as CHR ''&'')) < length as"
    using far near by (simp add: as ap_getword_def)
  then show "((snd (ap_getword as CHR ''&''),
               let value = fst (ap_getword as CHR ''&'');
                   name = fst (ap_getword value CHR ''='');
                   value = snd (ap_getword value CHR ''='')
               in apr_table_addn tbl name value),
              as, tbl) \<in> measure (\<lambda>(as, tbl). length as)"
    by simp
qed

declare query_loop.simps [simp del]

definition csrf_get_query :: "request_rec \<Rightarrow> apr_table_t option" where
  "csrf_get_query r =
     (case args r of
        None \<Rightarrow> None
      | Some as \<Rightarrow> Some (query_loop as []))"

subsection \<open>The token cookie\<close>

text \<open>\<open>setTokenCookie\<close> returns 0 and leaves the request as it is.\<close>

definition setTokenCookie :: "request_rec \<Rightarrow> int \<times> request_rec" where
  "setTokenCookie r = (0, r)"

text \<open>
  The loop of \<open>getCookieToken\<close>:
  \<open>for (i = 0; i < totalLen; i++) { if (p[i] == ';') break; ++pos; }\<close>.
\<close>

fun cookie_pos :: "string \<Rightarrow> int" where
  "cookie_pos [] = 0"
| "cookie_pos (c # cs) = (if c = CHR '';'' then 0 else 1 + cookie_pos cs)"

text \<open>
  \<open>getCookieToken\<close>: \<open>Inr None\<close> is the \<open>NULL\<close> it returns for a request without a
  Cookie header.  \<open>strlen(p)\<close> gets \<open>NULL\<close> when \<open>strstr\<close> finds nothing, and
  \<open>len\<close> is \<open>-1\<close> when the header ends, or a \<open>;\<close> stands, right after the name.
  The buffer \<open>tok\<close> has \<open>len\<close> bytes and \<open>strncpy\<close> fills all of them, so it holds
  no terminating NUL.  The result is the memory at the pointer returned: the
  \<open>len\<close> bytes copied, and behind them whatever the pool holds there.
\<close>

definition getCookieToken :: "request_rec \<Rightarrow> fault + string option" where
  "getCookieToken r =
     (case apr_table_get (headers_in r) ''Cookie'' of
        None \<Rightarrow> Inr None
      | Some cookie \<Rightarrow>
          (case strstr cookie CSRFP_TOKEN of
             None \<Rightarrow> Inl NullDeref
           | Some p \<Rightarrow>
               (let pos = cookie_pos p;
                    len = pos - int (length CSRFP_TOKEN) - 1
                in if len < 0 then Inl BadAlloc
                   else Inr (Some (take (nat len) (drop (length CSRFP_TOKEN + 1) p) @ pool_rest r)))))"

subsection \<open>Validation\<close>

text \<open>
  \<open>validatePOSTtoken\<close>: \<open>apr_table_get\<close> reads through the table pointer, which is
  \<open>NULL\<close> when \<open>read_post\<close> returned \<open>NULL\<close>, and \<open>strcmp\<close> gets \<open>NULL\<close> when
  \<open>getCookieToken\<close> returned \<open>NULL\<close>.  Otherwise \<open>strcmp\<close> compares the submitted
  value with the memory at the pointer \<open>getCookieToken\<close> returned.
\<close>

definition validatePOSTtoken :: "request_rec \<Rightarrow> fault + int" where
  "validatePOSTtoken r =
     (case read_post r of
        Inl f \<Rightarrow> Inl f
      | Inr None \<Rightarrow> Inl NullDeref
      | Inr (Some POST) \<Rightarrow>
          (case apr_table_get POST CSRFP_TOKEN of
             None \<Rightarrow> Inr 0
           | Some tokenValue \<Rightarrow>
               (case getCookieToken r of
                  Inl f \<Rightarrow> Inl f
                | Inr None \<Rightarrow> Inl NullDeref
                | Inr (Some tok) \<Rightarrow>
                    (case strcmp_eq tokenValue tok of
                       Inl f \<Rightarrow> Inl f
                     | Inr same \<Rightarrow> if same then Inr 1 else Inr 0))))"

definition validateGETTtoken :: "request_rec \<Rightarrow> fault + int" where
  "validateGETTtoken r =
     (case csrf_get_query r of
        None \<Rightarrow> Inr 0
      | Some GET \<Rightarrow>
          (case apr_table_get GET CSRFP_TOKEN of
             None \<Rightarrow> Inr 0
           | Some tokenValue \<Rightarrow>
               (case getCookieToken r of
                  Inl f \<Rightarrow> Inl f
                | Inr None \<Rightarrow> Inl NullDeref
                | Inr (Some tok) \<Rightarrow>
                    (case strcmp_eq tokenValue tok of
                       Inl f \<Rightarrow> Inl f
                     | Inr same \<Rightarrow> if same then Inr 1 else Inr 0))))"

definition getOutputContentType :: "request_rec \<Rightarrow> string option" where
  "getOutputContentType r =
     (case apr_table_get (headers_out r) ''Content-Type'' of
        Some type \<Rightarrow> Some type
      | None \<Rightarrow>
          (case apr_table_get (err_headers_out r) ''Content-Type'' of
             Some type \<Rightarrow> Some type
           | None \<Rightarrow> content_type r))"

subsection \<open>The action on a failed validation\<close>

text \<open>
  \<open>ap_rprintf(r, fmt, ...)\<close> appends the formatted text to what the request has
  written; \<open>%s\<close> prints \<open>(null)\<close> for a \<open>NULL\<close> string.
\<close>

definition ap_rprintf :: "request_rec \<Rightarrow> string \<Rightarrow> request_rec" where
  "ap_rprintf r text = r\<lparr>rprintf_out := rprintf_out r @ text\<rparr>"

definition fmt_s :: "string option \<Rightarrow> string" where
  "fmt_s s = (case s of None \<Rightarrow> ''(null)'' | Some t \<Rightarrow> t)"

text \<open>\<open>failedValidationAction\<close>: the status code it returns, and the request after it.\<close>

definition failedValidationAction :: "csrfp_config \<Rightarrow> request_rec \<Rightarrow> int \<times> request_rec" where
  "failedValidationAction conf r =
     (if action conf = CSRFP_ACTION_FORBIDDEN then (HTTP_FORBIDDEN, r)
      else if action conf = CSRFP_ACTION_STRIP then (OK, r)
      else if action conf = CSRFP_ACTION_REDIRECT then (DONE, r)
      else if action conf = CSRFP_ACTION_MESSAGE
        then (DONE, ap_rprintf r (''<h2>'' @ fmt_s (errorCustomMessage conf) @ ''</h2>''))
      else if action conf = CSRFP_ACTION_INTERNAL_SERVER_ERROR then (HTTP_INTERNAL_SERVER_ERROR, r)
      else (HTTP_FORBIDDEN, r))"

subsection \<open>The request hook and the output filter\<close>

definition ap_add_output_filter :: "string \<Rightarrow> request_rec \<Rightarrow> request_rec" where
  "ap_add_output_filter name r = r\<lparr>output_filters := output_filters r @ [name]\<rparr>"

text \<open>
  \<open>csrfp_header_parser\<close>.  The condition of the first \<open>if\<close> calls
  \<open>validatePOSTtoken\<close> only for the method POST; the branch for GET is empty, so
  every request that does not leave through \<open>failedValidationAction\<close> reaches the
  two table additions at the end.
\<close>

definition csrfp_header_parser :: "csrfp_config \<Rightarrow> request_rec \<Rightarrow> fault + int \<times> request_rec" where
  "csrfp_header_parser conf r =
     (if flag conf = 0 then Inr (OK, r)
      else
        (let r1 = ap_add_output_filter ''csrfp_out_filter'' r;
             pass = Inr (OK,
                      r1\<lparr>subprocess_env := apr_table_addn (subprocess_env r1) ''regenToken'' REGEN_TOKEN,
                         headers_out := apr_table_addn (headers_out r1) ''X-Protected-By'' ''CSRFP 0.0.1''\<rparr>)
         in if method_name r1 = ''POST''
            then (case validatePOSTtoken r1 of
                    Inl f \<Rightarrow> Inl f
                  | Inr v \<Rightarrow> if v = 0 then Inr (failedValidationAction conf r1) else pass)
            else pass))"

text \<open>
  \<open>csrfp_out_filter\<close>: the request after the filter ran, and the brigade it hands
  to \<open>ap_pass_brigade\<close>.  A brigade is the list of its buckets' bytes.  The block
  under the test of \<open>regenToken\<close> is empty in the source.
\<close>

definition csrfp_out_filter :: "request_rec \<Rightarrow> string list \<Rightarrow> request_rec \<times> string list" where
  "csrfp_out_filter r bb =
     (let r1 = r\<lparr>headers_out := apr_table_addn (headers_out r) ''output_filter'' ''called''\<rparr>;
          regenToken = apr_table_get (subprocess_env r1) ''regenToken'';
          r2 = (case regenToken of
                  None \<Rightarrow> r1
                | Some v \<Rightarrow> if strcasecmp_eq v REGEN_TOKEN then r1 else r1)
      in (ap_rprintf r2 ''<br>output filter'', bb))"

text \<open>
  The host runs the filters that were added to the request, in order, on the
  brigade of the content handler; of these only \<open>csrfp_out_filter\<close> belongs to the
  module, the others are taken to pass request and brigade on.
\<close>

fun run_output_filters :: "string list \<Rightarrow> request_rec \<Rightarrow> string list \<Rightarrow> request_rec \<times> string list" where
  "run_output_filters [] r bb = (r, bb)"
| "run_output_filters (f # fs) r bb =
     (if f = ''csrfp_out_filter''
      then (case csrfp_out_filter r bb of (r', bb') \<Rightarrow> run_output_filters fs r' bb')
      else run_output_filters fs r bb)"

text \<open>
  One request whose hook answered \<open>OK\<close>: the content handler's brigade \<open>bb\<close> goes
  through the filters of the request.  Any other answer of the hook ends the
  request there, with no brigade of the handler.
\<close>

definition serve :: "csrfp_config \<Rightarrow> request_rec \<Rightarrow> string list \<Rightarrow> fault + int \<times> request_rec \<times> string list" where
  "serve conf r bb =
     (case csrfp_header_parser conf r of
        Inl f \<Rightarrow> Inl f
      | Inr (rc, r') \<Rightarrow>
          if rc = OK
          then (case run_output_filters (output_filters r') r' bb of (r'', bb') \<Rightarrow> Inr (rc, r'', bb'))
          else Inr (rc, r', []))"

subsection \<open>Configuration\<close>

text \<open>
  \<open>csrfp_srv_config_create\<close>.  \<open>apr_pcalloc\<close> zeroes the structure, so
  \<open>verifyGetFor\<close> starts as \<open>NULL\<close>.  \<open>strncpy(dst, src, n)\<close> writes the first \<open>n\<close>
  bytes of \<open>src\<close>; each default is shorter than its buffer, so each buffer holds
  the default with its terminator.
\<close>

definition csrfp_srv_config_create :: csrfp_config where
  "csrfp_srv_config_create =
     \<lparr>flag = 1,
      action = DEFAULT_ACTION,
      errorRedirectionUri = Some (take CSRFP_URI_MAXLENGTH DEFAULT_REDIRECT_URL),
      errorCustomMessage = Some (take CSRFP_ERROR_MESSAGE_MAXLENGTH DEFAULT_ERROR_MESSAGE),
      jsFilePath = take CSRFP_URI_MAXLENGTH DEFAULT_JS_FILE_PATH,
      tokenLength = DEFAULT_TOKEN_LENGTH,
      disablesJsMessage = take CSRFP_DISABLED_JS_MESSAGE_MAXLENGTH DEFAULT_DISABLED_JS_MESSSAGE,
      verifyGetFor = None\<rparr>"

text \<open>
  A directive handler returns its error message, \<open>NULL\<close> (\<open>None\<close>) for none, and
  the configuration it leaves behind.  The handlers of the four directives with a
  text value (\<open>errorRedirectionUri\<close>, \<open>errorCustomMessage\<close>, \<open>jsFilePath\<close>,
  \<open>disablesJsMessage\<close>) are not embedded: they copy the argument with \<open>strncpy\<close> into
  a buffer of fixed size, and for an argument that fills the buffer the text a
  later reader finds depends on the memory behind the buffer.
\<close>

definition csrfp_enable_cmd :: "csrfp_config \<Rightarrow> string \<Rightarrow> string option \<times> csrfp_config" where
  "csrfp_enable_cmd config arg =
     (if strcasecmp_eq arg ''off'' then (None, config\<lparr>flag := 0\<rparr>)
      else (None, config\<lparr>flag := 1\<rparr>))"

definition csrfp_action_cmd :: "csrfp_config \<Rightarrow> string \<Rightarrow> string option \<times> csrfp_config" where
  "csrfp_action_cmd config arg =
     (if strcasecmp_eq arg ''forbidden'' then (None, config\<lparr>action := CSRFP_ACTION_FORBIDDEN\<rparr>)
      else if strcasecmp_eq arg ''strip'' then (None, config\<lparr>action := CSRFP_ACTION_STRIP\<rparr>)
      else if strcasecmp_eq arg ''redirect'' then (None, config\<lparr>action := CSRFP_ACTION_REDIRECT\<rparr>)
      else if strcasecmp_eq arg ''message'' then (None, config\<lparr>action := CSRFP_ACTION_MESSAGE\<rparr>)
      else if strcasecmp_eq arg ''internal_server_error''
        then (None, config\<lparr>action := CSRFP_ACTION_INTERNAL_SERVER_ERROR\<rparr>)
      else (None, config\<lparr>action := CSRFP_ACTION_FORBIDDEN\<rparr>))"

definition csrfp_tokenLength_cmd :: "csrfp_config \<Rightarrow> string \<Rightarrow> string option \<times> csrfp_config" where
  "csrfp_tokenLength_cmd config arg =
     (if length arg > 0
      then (let len = atoi arg
            in if len \<noteq> 0 then (None, config\<lparr>tokenLength := len\<rparr>) else (None, config))
      else (None, config))"

definition csrfp_verifyGetFor_cmd :: "csrfp_config \<Rightarrow> string \<Rightarrow> string option \<times> csrfp_config" where
  "csrfp_verifyGetFor_cmd config arg = (None, config\<lparr>verifyGetFor := None\<rparr>)"

subsection \<open>The alphabet the specification names, and sample requests\<close>

text \<open>
  The specification's token alphabet, from its words: upper-case letters,
  lower-case letters and digits, 62 characters.  It is not part of the source and
  stands here only to be compared with \<open>stringset\<close>.
\<close>

definition spec_alphabet :: string where
  "spec_alphabet = ''ABCDEFGHIJKLMNOPQRSTUVWXYZabcdefghijklmnopqrstuvwxyz0123456789''"

text \<open>
  A GET request with no query, no headers and no body, as the host hands it to
  the hook, in a pool whose next free byte is zero.
\<close>

definition sample_request :: request_rec where
  "sample_request =
     \<lparr>method_name = ''GET'', args = None, headers_in = [], headers_out = [], err_headers_out = [],
      content_type = None, subprocess_env = [], client_block_rc = 0, body = [],
      output_filters = [], rprintf_out = [], pool_rest = [NUL]\<rparr>"

text \<open>A POST request with a form body and the given further request headers.\<close>

definition sample_post :: "apr_table_t \<Rightarrow> string \<Rightarrow> request_rec" where
  "sample_post hdrs form =
     sample_request\<lparr>method_name := ''POST'',
        headers_in := (''Content-Type'', ''application/x-www-form-urlencoded'') # hdrs,
        body := form\<rparr>"

section \<open>Properties\<close>

subsection \<open>Auxiliary facts\<close>

lemma cookie_pos_stop: "CHR '';'' \<notin> set a \<Longrightarrow> cookie_pos (a @ CHR '';'' # b) = int (length a)"
  by (induction a) auto

lemma cookie_pos_end: "CHR '';'' \<notin> set a \<Longrightarrow> cookie_pos a = int (length a)"
  by (induction a) auto

lemma run_output_filters_other:
  "''csrfp_out_filter'' \<notin> set fs \<Longrightarrow> run_output_filters fs r bb = (r, bb)"
  by (induction fs arbitrary: r bb) auto

lemma apr_table_get_addn:
  "\<not> strcasecmp_eq key' key \<Longrightarrow> apr_table_get (apr_table_addn t key' val) key = apr_table_get t key"
  by (induction t) (auto simp: apr_table_addn_def)

lemma fill_token_length: "fill_token rnd i n = Inr tok \<Longrightarrow> length tok = n"
  by (induction n arbitrary: i tok) (auto split: sum.splits)

text \<open>When \<open>generateToken\<close> returns, the buffer holds exactly \<open>length\<close> bytes.\<close>

lemma generateToken_length: "generateToken rnd len = Inr tok \<Longrightarrow> int (length tok) = len"
  by (auto simp: generateToken_def dest: fill_token_length split: if_splits)

text \<open>
  Every Cookie header without the text \<open>csrfp_token\<close> sends \<open>NULL\<close> to \<open>strlen\<close>,
  and every POST that submits a token without a Cookie header sends \<open>NULL\<close> to
  \<open>strcmp\<close>.
\<close>

lemma getCookieToken_strstr_null:
  "apr_table_get (headers_in r) ''Cookie'' = Some cookie \<Longrightarrow> strstr cookie CSRFP_TOKEN = None
     \<Longrightarrow> getCookieToken r = Inl NullDeref"
  by (simp add: getCookieToken_def)

lemma validatePOSTtoken_cookie_null:
  "read_post r = Inr (Some POST) \<Longrightarrow> apr_table_get POST CSRFP_TOKEN = Some tokenValue
     \<Longrightarrow> apr_table_get (headers_in r) ''Cookie'' = None
     \<Longrightarrow> validatePOSTtoken r = Inl NullDeref"
  by (simp add: validatePOSTtoken_def getCookieToken_def)

text \<open>
  A header that starts with \<open>csrfp_token=\<close> gives the text up to the next \<open>;\<close>,
  or up to the end of the header when no \<open>;\<close> follows, and behind it the content
  of the pool.
\<close>

lemma getCookieToken_value:
  assumes v: "CHR '';'' \<notin> set v"
  shows "apr_table_get (headers_in r) ''Cookie'' = Some (''csrfp_token='' @ v)
           \<Longrightarrow> getCookieToken r = Inr (Some (v @ pool_rest r))"
    and "apr_table_get (headers_in r) ''Cookie'' = Some (''csrfp_token='' @ v @ CHR '';'' # rest)
           \<Longrightarrow> getCookieToken r = Inr (Some (v @ pool_rest r))"
proof -
  have no: "CHR '';'' \<notin> set (''csrfp_token='' @ v)"
    using v by simp
  have "cookie_pos (''csrfp_token='' @ v) = int (length (''csrfp_token='' @ v))"
    using no by (rule cookie_pos_end)
  then have at_end: "cookie_pos (''csrfp_token='' @ v) = 12 + int (length v)"
    by simp
  have "cookie_pos ((''csrfp_token='' @ v) @ CHR '';'' # rest) = int (length (''csrfp_token='' @ v))"
    using no by (rule cookie_pos_stop)
  then have at_stop: "cookie_pos (''csrfp_token='' @ v @ CHR '';'' # rest) = 12 + int (length v)"
    by simp
  show "apr_table_get (headers_in r) ''Cookie'' = Some (''csrfp_token='' @ v)
          \<Longrightarrow> getCookieToken r = Inr (Some (v @ pool_rest r))"
    using at_end by (simp add: getCookieToken_def CSRFP_TOKEN_def Let_def)
  show "apr_table_get (headers_in r) ''Cookie'' = Some (''csrfp_token='' @ v @ CHR '';'' # rest)
          \<Longrightarrow> getCookieToken r = Inr (Some (v @ pool_rest r))"
    using at_stop by (simp add: getCookieToken_def CSRFP_TOKEN_def Let_def)
qed

text \<open>
  \<open>strcmp\<close> on a buffer that holds the same bytes as the C string \<open>a\<close> and no
  terminator: the answer is the byte behind the buffer.  A zero byte there makes
  the strings equal, any other byte makes them differ, and with no readable byte
  there the read leaves the memory.
\<close>

lemma strcmp_eq_same:
  assumes "NUL \<notin> set a"
  shows "strcmp_eq a (a @ y # mem) = Inr (y = NUL)" and "strcmp_eq a a = Inl OutOfBounds"
  using assms by (induction a) auto

text \<open>
  With a table from \<open>read_post\<close> and a pointer from \<open>getCookieToken\<close>, the result of
  \<open>validatePOSTtoken\<close> is the outcome of \<open>strcmp\<close> on the submitted value and the
  memory at that pointer.
\<close>

lemma validatePOSTtoken_compare:
  "read_post r = Inr (Some POST) \<Longrightarrow> apr_table_get POST CSRFP_TOKEN = Some tokenValue
     \<Longrightarrow> getCookieToken r = Inr (Some tok)
     \<Longrightarrow> validatePOSTtoken r
           = (case strcmp_eq tokenValue tok of Inl f \<Rightarrow> Inl f | Inr same \<Rightarrow> Inr (if same then 1 else 0))"
  by (simp add: validatePOSTtoken_def split: sum.split)

text \<open>
  The same POST with the same cookie is accepted with a zero byte behind the
  cookie buffer and refused with the byte \<open>x\<close> there.
\<close>

lemma validatePOSTtoken_pool_byte:
  "validatePOSTtoken
     ((sample_post [(''Cookie'', ''csrfp_token=abc'')] ''a=1&csrfp_token=abc'')\<lparr>pool_rest := [NUL]\<rparr>) = Inr 1"
  "validatePOSTtoken
     ((sample_post [(''Cookie'', ''csrfp_token=abc'')] ''a=1&csrfp_token=abc'')\<lparr>pool_rest := ''x''\<rparr>) = Inr 0"
  "validatePOSTtoken
     ((sample_post [(''Cookie'', ''csrfp_token=abc'')] ''a=1&csrfp_token=abc'')\<lparr>pool_rest := []\<rparr>)
     = Inl OutOfBounds"
  by code_simp+

lemma validatePOSTtoken_no_field:
  "read_post r = Inr (Some POST) \<Longrightarrow> apr_table_get POST CSRFP_TOKEN = None
     \<Longrightarrow> validatePOSTtoken r = Inr 0"
  by (simp add: validatePOSTtoken_def)

text \<open>Each default text is shorter than the buffer \<open>csrfp_srv_config_create\<close> copies it to.\<close>

lemma defaults_fit:
  "length DEFAULT_JS_FILE_PATH < CSRFP_URI_MAXLENGTH"
  "length DEFAULT_REDIRECT_URL < CSRFP_URI_MAXLENGTH"
  "length DEFAULT_ERROR_MESSAGE < CSRFP_ERROR_MESSAGE_MAXLENGTH"
  "length DEFAULT_DISABLED_JS_MESSSAGE < CSRFP_DISABLED_JS_MESSAGE_MAXLENGTH"
  by (simp_all add: DEFAULT_JS_FILE_PATH_def DEFAULT_REDIRECT_URL_def DEFAULT_ERROR_MESSAGE_def
      DEFAULT_DISABLED_JS_MESSSAGE_def CSRFP_URI_MAXLENGTH_def CSRFP_ERROR_MESSAGE_MAXLENGTH_def
      CSRFP_DISABLED_JS_MESSAGE_MAXLENGTH_def)

text \<open>
  The handler of \<open>tokenLength\<close> has no error result.  It leaves the configuration
  alone when \<open>atoi\<close> reads 0, and stores every other number \<open>atoi\<close> reads.
\<close>

lemma csrfp_tokenLength_cmd_no_error: "fst (csrfp_tokenLength_cmd config arg) = None"
  by (simp add: csrfp_tokenLength_cmd_def Let_def)

lemma atoi_empty: "atoi [] = 0"
  by (simp add: atoi_def strtol10_def int_of_long_def)

lemma csrfp_tokenLength_cmd_stores:
  "csrfp_tokenLength_cmd config arg
     = (None, if atoi arg = 0 then config else config\<lparr>tokenLength := atoi arg\<rparr>)"
proof (cases "arg = []")
  case True
  then show ?thesis
    by (simp add: csrfp_tokenLength_cmd_def atoi_empty)
next
  case False
  then show ?thesis
    by (simp add: csrfp_tokenLength_cmd_def Let_def)
qed

text \<open>The dispatcher's answers for the actions other than \<open>redirect\<close>.\<close>

lemma failedValidationAction_status:
  "failedValidationAction (conf\<lparr>action := CSRFP_ACTION_FORBIDDEN\<rparr>) r = (HTTP_FORBIDDEN, r)"
  "failedValidationAction (conf\<lparr>action := CSRFP_ACTION_STRIP\<rparr>) r = (OK, r)"
  "failedValidationAction (conf\<lparr>action := CSRFP_ACTION_INTERNAL_SERVER_ERROR\<rparr>) r
     = (HTTP_INTERNAL_SERVER_ERROR, r)"
  "failedValidationAction (conf\<lparr>action := CSRFP_ACTION_MESSAGE\<rparr>) r
     = (DONE, r\<lparr>rprintf_out := rprintf_out r @ ''<h2>'' @ fmt_s (errorCustomMessage conf) @ ''</h2>''\<rparr>)"
  "a \<notin> {0, 1, 2, 3, 4} \<Longrightarrow> failedValidationAction (conf\<lparr>action := a\<rparr>) r = (HTTP_FORBIDDEN, r)"
  by (simp_all add: failedValidationAction_def ap_rprintf_def CSRFP_ACTION_FORBIDDEN_def
      CSRFP_ACTION_STRIP_def CSRFP_ACTION_REDIRECT_def CSRFP_ACTION_MESSAGE_def
      CSRFP_ACTION_INTERNAL_SERVER_ERROR_def)

subsection \<open>Token cookie on allowed requests\<close>

text \<open>
  Claim C1 says that every request the enabled module lets through gets a
  Set-Cookie header for \<open>csrfp_token\<close> with a fresh token of the configured
  length.  In the source \<open>setTokenCookie\<close> returns 0 without touching the request,
  and the block of \<open>csrfp_out_filter\<close> that should regenerate the token is empty.
  For every configuration with the module on and every GET request that enters
  the hook without filters, the request is served with status \<open>OK\<close>, the only
  response headers added are X-Protected-By and output\_filter, and a lookup of
  Set-Cookie gives what it gave before the request: no token cookie is sent.
\<close>

theorem no_token_cookie_sent:
  "\<exists>r'. serve (conf\<lparr>flag := 1\<rparr>) (r\<lparr>method_name := ''GET'', output_filters := []\<rparr>) bb = Inr (OK, r', bb)
        \<and> headers_out r' = headers_out r @ [(''X-Protected-By'', ''CSRFP 0.0.1''), (''output_filter'', ''called'')]
        \<and> apr_table_get (headers_out r') ''Set-Cookie'' = apr_table_get (headers_out r) ''Set-Cookie''
        \<and> setTokenCookie r' = (0, r')"
proof -
  let ?h = "apr_table_addn (apr_table_addn (headers_out r) ''X-Protected-By'' ''CSRFP 0.0.1'')
              ''output_filter'' ''called''"
  let ?r = "r\<lparr>method_name := ''GET'', output_filters := [''csrfp_out_filter''],
               subprocess_env := apr_table_addn (subprocess_env r) ''regenToken'' REGEN_TOKEN,
               headers_out := ?h, rprintf_out := rprintf_out r @ ''<br>output filter''\<rparr>"
  have run: "serve (conf\<lparr>flag := 1\<rparr>) (r\<lparr>method_name := ''GET'', output_filters := []\<rparr>) bb = Inr (OK, ?r, bb)"
    by (simp add: serve_def csrfp_header_parser_def ap_add_output_filter_def csrfp_out_filter_def
        ap_rprintf_def Let_def OK_def split: option.split)
  have "apr_table_get ?h ''Set-Cookie'' = apr_table_get (headers_out r) ''Set-Cookie''"
    by (simp add: apr_table_get_addn strcasecmp_eq_def c_tolower_def)
  with run show ?thesis
    by (simp add: apr_table_addn_def setTokenCookie_def)
qed

subsection \<open>POST validation\<close>

text \<open>
  Claim C2 says that a form POST passes when the submitted \<open>csrfp_token\<close> equals
  the cookie token, fails on a mismatch, fails when there is no cookie and fails
  when the body has no \<open>csrfp_token\<close> field.  \<open>validatePOSTtoken\<close> returns 1 on
  equal tokens and 0 on different tokens and on a body without the field.  For a
  request that submits a token and has no Cookie header, \<open>getCookieToken\<close> returns
  \<open>NULL\<close> and \<open>validatePOSTtoken\<close> hands it to \<open>strcmp\<close>: the function does not
  return 0, it dereferences \<open>NULL\<close>.  The sample requests have a zero byte
  behind the cookie buffer, which equal tokens need to compare as equal.
\<close>

theorem validatePOSTtoken_cases:
  "validatePOSTtoken (sample_post [(''Cookie'', ''csrfp_token=abc'')] ''a=1&csrfp_token=abc'') = Inr 1
   \<and> validatePOSTtoken (sample_post [(''Cookie'', ''csrfp_token=abc'')] ''a=1&csrfp_token=abd'') = Inr 0
   \<and> validatePOSTtoken (sample_post [(''Cookie'', ''csrfp_token=abc'')] ''a=1'') = Inr 0
   \<and> validatePOSTtoken (sample_post [] ''a=1&csrfp_token=abc'') = Inl NullDeref"
  by code_simp

subsection \<open>The action dispatcher\<close>

text \<open>
  Claim C3 says that a failed validation is answered with 403 for the action
  \<open>forbidden\<close>, a redirect to the configured URI for \<open>redirect\<close>, the configured
  message for \<open>message\<close>, 500 for \<open>internal_server_error\<close> and 403 for any other
  value.  The directive \<open>csrfpAction redirect\<close> stores the action code 2, and for
  that code \<open>failedValidationAction\<close> returns \<open>DONE\<close> and leaves the request as it
  was, whatever the redirection URI: no Location header, no status of a redirect
  and no use of \<open>errorRedirectionUri\<close>.  A form POST whose token differs from
  the cookie leaves the hook with \<open>DONE\<close>, and the only change to the request is
  the output filter the hook added before it validated.
\<close>

theorem redirect_action_only_done:
  "csrfp_action_cmd conf ''redirect'' = (None, conf\<lparr>action := CSRFP_ACTION_REDIRECT\<rparr>)
   \<and> failedValidationAction
         (conf\<lparr>action := CSRFP_ACTION_REDIRECT, errorRedirectionUri := Some ''http://x/err''\<rparr>) r
       = (DONE, r)
   \<and> csrfp_header_parser
         (csrfp_srv_config_create\<lparr>action := CSRFP_ACTION_REDIRECT, errorRedirectionUri := Some ''http://x/err''\<rparr>)
         (sample_post [(''Cookie'', ''csrfp_token=abc'')] ''csrfp_token=abd'')
       = Inr (DONE, (sample_post [(''Cookie'', ''csrfp_token=abc'')] ''csrfp_token=abd'')
                      \<lparr>output_filters := [''csrfp_out_filter'']\<rparr>)"
proof -
  have cmd: "csrfp_action_cmd conf ''redirect'' = (None, conf\<lparr>action := CSRFP_ACTION_REDIRECT\<rparr>)"
    by (simp add: csrfp_action_cmd_def strcasecmp_eq_def c_tolower_def)
  have act: "failedValidationAction
               (conf\<lparr>action := CSRFP_ACTION_REDIRECT, errorRedirectionUri := Some ''http://x/err''\<rparr>) r
             = (DONE, r)"
    by (simp add: failedValidationAction_def CSRFP_ACTION_REDIRECT_def CSRFP_ACTION_FORBIDDEN_def
        CSRFP_ACTION_STRIP_def)
  have hook: "csrfp_header_parser
         (csrfp_srv_config_create\<lparr>action := CSRFP_ACTION_REDIRECT, errorRedirectionUri := Some ''http://x/err''\<rparr>)
         (sample_post [(''Cookie'', ''csrfp_token=abc'')] ''csrfp_token=abd'')
       = Inr (DONE, (sample_post [(''Cookie'', ''csrfp_token=abc'')] ''csrfp_token=abd'')
                      \<lparr>output_filters := [''csrfp_out_filter'']\<rparr>)"
    by code_simp
  from cmd act hook show ?thesis
    by (intro conjI)
qed

subsection \<open>GET requests\<close>

text \<open>
  Claim C4 says that a GET request is validated exactly when its URI matches the
  configured pattern, by the comparison that \<open>validateGETTtoken\<close> makes on the
  query string.  The directive handler \<open>csrfp_verifyGetFor_cmd\<close> stores \<open>NULL\<close>
  for every pattern, and the GET branch of \<open>csrfp_header_parser\<close> is empty.  So
  with the module on and any pattern configured, a GET request whose query
  carries \<open>csrfp_token=bad\<close> against the cookie \<open>csrfp_token=good\<close>, which
  \<open>validateGETTtoken\<close> rejects with 0, is answered \<open>OK\<close> by the hook.
\<close>

theorem get_request_not_validated:
  "verifyGetFor (snd (csrfp_verifyGetFor_cmd conf pattern)) = None
   \<and> validateGETTtoken
         (r\<lparr>args := Some ''csrfp_token=bad'', headers_in := [(''Cookie'', ''csrfp_token=good'')]\<rparr>) = Inr 0
   \<and> (\<exists>r'. csrfp_header_parser (snd (csrfp_verifyGetFor_cmd (conf\<lparr>flag := 1\<rparr>) pattern))
               (r\<lparr>method_name := ''GET'', args := Some ''csrfp_token=bad'',
                  headers_in := [(''Cookie'', ''csrfp_token=good'')]\<rparr>)
             = Inr (OK, r'))"
proof -
  have tbl: "query_loop ''csrfp_token=bad'' [] = [(''csrfp_token'', ''bad'')]"
    by code_simp
  have "validateGETTtoken
          (r\<lparr>args := Some ''csrfp_token=bad'', headers_in := [(''Cookie'', ''csrfp_token=good'')]\<rparr>) = Inr 0"
    by (simp add: validateGETTtoken_def csrf_get_query_def tbl getCookieToken_def strcasecmp_eq_def
        CSRFP_TOKEN_def)
  then show ?thesis
    by (simp add: csrfp_verifyGetFor_cmd_def csrfp_header_parser_def ap_add_output_filter_def Let_def)
qed

subsection \<open>The response body\<close>

text \<open>
  Claim C5 says that an allowed HTML response gets a \<open>noscript\<close> block after the
  opening \<open>body\<close> tag and a script reference before the closing one.
  \<open>csrfp_out_filter\<close> hands every brigade on as it received it; the response
  \<open><html><body>hi</body></html>\<close> of content type text/html leaves the enabled
  module byte for byte the same, with neither block inserted.
\<close>

theorem out_filter_passes_body:
  "snd (csrfp_out_filter r bb) = bb
   \<and> getOutputContentType (sample_request\<lparr>headers_out := [(''Content-Type'', ''text/html'')]\<rparr>)
       = Some ''text/html''
   \<and> (\<exists>r'. serve csrfp_srv_config_create
               (sample_request\<lparr>headers_out := [(''Content-Type'', ''text/html'')]\<rparr>)
               [''<html><body>hi</body></html>'']
           = Inr (OK, r', [''<html><body>hi</body></html>'']))"
  by (simp add: csrfp_out_filter_def Let_def getOutputContentType_def strcasecmp_eq_def sample_request_def
      serve_def csrfp_header_parser_def csrfp_srv_config_create_def ap_add_output_filter_def OK_def)

subsection \<open>Cookie-token extraction\<close>

text \<open>
  Claim C6 says that the extraction returns the value of the \<open>csrfp_token=\<close>
  segment up to the next \<open>;\<close> or the end, and returns none, without failing, when
  the header is absent, empty or has no such key.  \<open>getCookieToken\<close> returns
  \<open>NULL\<close> for a request without a Cookie header.  For the headers \<open>a=b\<close> and the
  empty header \<open>strstr\<close> finds nothing and the next statement, \<open>strlen(p)\<close>,
  dereferences \<open>NULL\<close>.  For a header with the cookie the pointer returned is
  at the bytes of its value, which no terminator follows in the buffer.
\<close>

theorem getCookieToken_no_key:
  "getCookieToken (r\<lparr>headers_in := [(''Cookie'', ''a=b'')]\<rparr>) = Inl NullDeref
   \<and> getCookieToken (r\<lparr>headers_in := [(''Cookie'', [])]\<rparr>) = Inl NullDeref
   \<and> getCookieToken (r\<lparr>headers_in := []\<rparr>) = Inr None
   \<and> getCookieToken (r\<lparr>headers_in := [(''Cookie'', ''a=b; csrfp_token=tok; c=d'')]\<rparr>)
       = Inr (Some (''tok'' @ pool_rest r))"
  by (simp add: getCookieToken_def strcasecmp_eq_def CSRFP_TOKEN_def)

subsection \<open>The token alphabet\<close>

text \<open>
  Claim C7 says that \<open>generateToken\<close> returns \<open>length\<close> characters, each from the
  62 letters and digits.  The literal \<open>stringset\<close> has 60 characters (\<open>U\<close> and
  \<open>V\<close> are missing), while the loop indexes it with 0 to 61.  When \<open>rand()\<close>
  returns 59 the index is 60 and the byte stored is the literal's terminating NUL,
  which is no letter or digit; when \<open>rand()\<close> returns 60 the index is 61, past
  the end of the literal.
\<close>

theorem generateToken_nul_byte:
  "generateToken (\<lambda>k. 59) 1 = Inr [NUL] \<and> NUL \<notin> set spec_alphabet
   \<and> generateToken (\<lambda>k. 60) 1 = Inl OutOfBounds
   \<and> length stringset = 60 \<and> CHR ''U'' \<notin> set stringset \<and> CHR ''V'' \<notin> set stringset"
  by (simp add: generateToken_def token_char_def stringset_at_def stringset_def NUL_def
      spec_alphabet_def)

subsection \<open>The module switched off\<close>

text \<open>
  Claim C8: while the module is disabled (\<open>flag\<close> is 0) the hook does nothing.
  For every request, \<open>csrfp_header_parser\<close> returns \<open>OK\<close> and the request exactly
  as it came in, so no X-Protected-By header is added, no cookie is set, no output
  filter is added and \<open>validatePOSTtoken\<close> is not called (the hook returns also
  for requests on which that function would dereference \<open>NULL\<close>).  A request that
  came in without the module's filter is served with its response brigade
  unchanged.
\<close>

theorem disabled_bypass:
  assumes off: "flag conf = 0" and fresh: "''csrfp_out_filter'' \<notin> set (output_filters r)"
  shows "csrfp_header_parser conf r = Inr (OK, r) \<and> serve conf r bb = Inr (OK, r, bb)"
proof -
  have hook: "csrfp_header_parser conf r = Inr (OK, r)"
    using off by (simp add: csrfp_header_parser_def)
  have "run_output_filters (output_filters r) r bb = (r, bb)"
    using fresh by (rule run_output_filters_other)
  with hook show ?thesis
    by (simp add: serve_def)
qed

theorem disabled_bypass_witness:
  "csrfp_header_parser (snd (csrfp_enable_cmd csrfp_srv_config_create ''Off''))
       (sample_post [] ''a=1&csrfp_token=abc'')
     = Inr (OK, sample_post [] ''a=1&csrfp_token=abc'')
   \<and> serve (snd (csrfp_enable_cmd csrfp_srv_config_create ''Off''))
       (sample_post [] ''a=1&csrfp_token=abc'') [''<html><body>hi</body></html>'']
     = Inr (OK, sample_post [] ''a=1&csrfp_token=abc'', [''<html><body>hi</body></html>''])"
proof -
  have off: "flag (snd (csrfp_enable_cmd csrfp_srv_config_create ''Off'')) = 0"
    by (simp add: csrfp_enable_cmd_def strcasecmp_eq_def c_tolower_def)
  have fresh: "''csrfp_out_filter'' \<notin> set (output_filters (sample_post [] ''a=1&csrfp_token=abc''))"
    by (simp add: sample_post_def sample_request_def)
  show ?thesis
    by (rule disabled_bypass [OF off fresh])
qed

subsection \<open>The token length directive\<close>

text \<open>
  Claim C9 says that a non-positive token length is rejected when the
  configuration is loaded and never accepted, so that the token length is greater
  than zero for every request.  The handler \<open>csrfp_tokenLength_cmd\<close> guards the
  assignment with \<open>if (length)\<close>, which holds for every number but 0.  For the
  argument \<open>-5\<close> it returns no error and stores \<open>-5\<close>; for \<open>2147483648\<close>,
  which \<open>atoi\<close> wraps around, it stores \<open>-2147483648\<close>.  Only the argument \<open>0\<close>
  is kept out, and without an error: the default 15 stays.
\<close>

theorem tokenLength_cmd_negative_stored:
  "csrfp_tokenLength_cmd csrfp_srv_config_create ''-5''
     = (None, csrfp_srv_config_create\<lparr>tokenLength := - 5\<rparr>)
   \<and> tokenLength (snd (csrfp_tokenLength_cmd csrfp_srv_config_create ''-5'')) < 0
   \<and> csrfp_tokenLength_cmd csrfp_srv_config_create ''2147483648''
     = (None, csrfp_srv_config_create\<lparr>tokenLength := - 2147483648\<rparr>)
   \<and> csrfp_tokenLength_cmd csrfp_srv_config_create ''0'' = (None, csrfp_srv_config_create)
   \<and> tokenLength csrfp_srv_config_create = 15"
proof -
  have minus: "atoi ''-5'' = - 5"
    by (simp add: atoi_def strtol10_def int_of_long_def c_isspace_def digit_val_def)
  have wrap: "atoi ''2147483648'' = - 2147483648"
    by (simp add: atoi_def strtol10_def int_of_long_def c_isspace_def digit_val_def)
  have zero: "atoi ''0'' = 0"
    by (simp add: atoi_def strtol10_def int_of_long_def c_isspace_def digit_val_def)
  have default: "tokenLength csrfp_srv_config_create = 15"
    by (simp add: csrfp_srv_config_create_def DEFAULT_TOKEN_LENGTH_def)
  show ?thesis
    using minus wrap zero default by (simp add: csrfp_tokenLength_cmd_def Let_def)
qed

subsection \<open>The first occurrence of the cookie name\<close>

text \<open>
  Claim C10: \<open>getCookieToken\<close> looks for the first place where the text
  \<open>csrfp_token\<close> occurs in the Cookie header, not for a cookie of that name.  When
  the text is the tail of another cookie's name (\<open>xcsrfp_token=v\<close>) or stands
  inside another cookie's value (\<open>a=csrfp_tokenXv\<close>), the bytes copied to the
  buffer are taken from that cookie, up to its \<open>;\<close>, and the cookie
  \<open>csrfp_token=w\<close> that follows is not looked at.  The pointer returned is at these
  bytes, with the content of the pool behind them, whatever that is.
\<close>

theorem getCookieToken_first_occurrence:
  assumes v: "CHR '';'' \<notin> set v" and c: "c \<noteq> CHR '';''"
    and name: "apr_table_get (headers_in r1) ''Cookie''
                 = Some (''xcsrfp_token='' @ v @ ''; csrfp_token='' @ w)"
    and val: "apr_table_get (headers_in r2) ''Cookie''
                 = Some (''a=csrfp_token'' @ c # v @ ''; csrfp_token='' @ w)"
  shows "getCookieToken r1 = Inr (Some (v @ pool_rest r1))
         \<and> getCookieToken r2 = Inr (Some (v @ pool_rest r2))"
proof
  let ?p = "''csrfp_token='' @ v @ ''; csrfp_token='' @ w"
  have found: "strstr (''xcsrfp_token='' @ v @ ''; csrfp_token='' @ w) CSRFP_TOKEN = Some ?p"
    by (simp add: CSRFP_TOKEN_def)
  have "CHR '';'' \<notin> set (''csrfp_token='' @ v)"
    using v by simp
  then have "cookie_pos ((''csrfp_token='' @ v) @ CHR '';'' # '' csrfp_token='' @ w)
               = int (length (''csrfp_token='' @ v))"
    by (rule cookie_pos_stop)
  then have pos: "cookie_pos ?p = 12 + int (length v)"
    by simp
  show "getCookieToken r1 = Inr (Some (v @ pool_rest r1))"
    using name found pos by (simp add: getCookieToken_def CSRFP_TOKEN_def Let_def)
next
  let ?p = "''csrfp_token'' @ c # v @ ''; csrfp_token='' @ w"
  have found: "strstr (''a=csrfp_token'' @ c # v @ ''; csrfp_token='' @ w) CSRFP_TOKEN = Some ?p"
    by (simp add: CSRFP_TOKEN_def)
  have "CHR '';'' \<notin> set (''csrfp_token'' @ c # v)"
    using v c by simp
  then have "cookie_pos ((''csrfp_token'' @ c # v) @ CHR '';'' # '' csrfp_token='' @ w)
               = int (length (''csrfp_token'' @ c # v))"
    by (rule cookie_pos_stop)
  then have pos: "cookie_pos ?p = 12 + int (length v)"
    by simp
  show "getCookieToken r2 = Inr (Some (v @ pool_rest r2))"
    using val found pos by (simp add: getCookieToken_def CSRFP_TOKEN_def Let_def)
qed

theorem getCookieToken_first_occurrence_witness:
  "getCookieToken
     (sample_request\<lparr>headers_in := [(''Cookie'', ''xcsrfp_token=v; csrfp_token=real'')],
                     pool_rest := ''old bytes''\<rparr>)
     = Inr (Some (''v'' @ ''old bytes''))
   \<and> getCookieToken
       (sample_request\<lparr>headers_in := [(''Cookie'', ''a=csrfp_tokenXv; csrfp_token=real'')],
                       pool_rest := []\<rparr>)
     = Inr (Some (''v'' @ []))"
proof -
  let ?r1 = "sample_request\<lparr>headers_in := [(''Cookie'', ''xcsrfp_token=v; csrfp_token=real'')],
                            pool_rest := ''old bytes''\<rparr>"
  let ?r2 = "sample_request\<lparr>headers_in := [(''Cookie'', ''a=csrfp_tokenXv; csrfp_token=real'')],
                            pool_rest := []\<rparr>"
  have v: "CHR '';'' \<notin> set ''v''"
    by simp
  have c: "CHR ''X'' \<noteq> CHR '';''"
    by simp
  have name: "apr_table_get (headers_in ?r1) ''Cookie''
              = Some (''xcsrfp_token='' @ ''v'' @ ''; csrfp_token='' @ ''real'')"
    by (simp add: strcasecmp_eq_def)
  have val: "apr_table_get (headers_in ?r2) ''Cookie''
             = Some (''a=csrfp_token'' @ CHR ''X'' # ''v'' @ ''; csrfp_token='' @ ''real'')"
    by (simp add: strcasecmp_eq_def)
  have "getCookieToken ?r1 = Inr (Some (''v'' @ pool_rest ?r1))
        \<and> getCookieToken ?r2 = Inr (Some (''v'' @ pool_rest ?r2))"
    by (rule getCookieToken_first_occurrence [OF v c name val])
  then show ?thesis
    by simp
qed

end
